theory Spec2Isabelle
  imports Main "HOL-Library.Word" "HOL-Library.Char_ord" "HOL-Library.List_Lexorder"
begin

section \<open>Strings\<close>

text \<open>
  A Python \<open>str\<close> is a sequence of Unicode code points: \<open>len\<close> counts code points and
  \<open>ord\<close> reads one. Message texts are therefore lists of code points. Timestamps, hashes
  and other ASCII-only strings are HOL strings.
\<close>

type_synonym codepoint = nat
type_synonym pystr = "codepoint list"

definition startswith :: "string \<Rightarrow> string \<Rightarrow> bool" where
  "startswith s prefix = (take (length prefix) s = prefix)"

section \<open>Sanitization (app.py)\<close>

text \<open>
  \<open>unicodedata.category\<close> is the Unicode database of the Python runtime; it is a
  parameter of the model (a code point's two-letter general category).
  The loop of \<open>sanitize\<close> appends to \<open>result\<close>; the accumulator is that list.
\<close>

fun sanitize_loop :: "(codepoint \<Rightarrow> string) \<Rightarrow> pystr \<Rightarrow> pystr \<Rightarrow> pystr" where
  "sanitize_loop category [] result = result"
| "sanitize_loop category (char # text) result =
     (if char = 0x0A then sanitize_loop category text (result @ [char])
      else if char < 0x20 \<or> char = 0x7F then sanitize_loop category text result
      else if startswith (category char) ''C'' then sanitize_loop category text result
      else sanitize_loop category text (result @ [char]))"

definition sanitize :: "(codepoint \<Rightarrow> string) \<Rightarrow> pystr \<Rightarrow> pystr" where
  "sanitize category text = sanitize_loop category text []"

text \<open>A small category table for evaluating the model on concrete inputs: the C0 and C1
  controls are \<open>Cc\<close>, the soft hyphen is \<open>Cf\<close>, the space is \<open>Zs\<close>, everything else
  counts as a letter.\<close>

definition sample_category :: "codepoint \<Rightarrow> string" where
  "sample_category c =
     (if c < 0x20 \<or> (0x7F \<le> c \<and> c < 0xA0) then ''Cc''
      else if c = 0xAD then ''Cf''
      else if c = 0x20 then ''Zs''
      else ''Lo'')"

section \<open>Printer bridge (printer-server.py)\<close>

text \<open>
  A Python exception, by its class and its \<open>str()\<close>, which is all the programs read of it.
\<close>

datatype pyexn = PyExn (exn_class: string) (exn_str: string)

type_synonym byte = "8 word"

text \<open>
  \<open>str.encode("utf-8")\<close> is the runtime's; it is modelled by the UTF-8 encoding itself:
  one to four bytes per code point, and \<open>UnicodeEncodeError\<close> on a lone surrogate
  (Python strings can hold them). A Python string has no code point from 0x110000 on;
  the model refuses those as well.
\<close>

definition encodable :: "codepoint \<Rightarrow> bool" where
  "encodable c = (c < 0x110000 \<and> (c < 0xD800 \<or> 0xDFFF < c))"

definition utf8_codepoint :: "codepoint \<Rightarrow> byte list" where
  "utf8_codepoint c =
     (if c < 0x80 then [of_nat c]
      else if c < 0x800 then [of_nat (0xC0 + c div 0x40), of_nat (0x80 + c mod 0x40)]
      else if c < 0x10000 then
        [of_nat (0xE0 + c div 0x1000), of_nat (0x80 + c div 0x40 mod 0x40),
         of_nat (0x80 + c mod 0x40)]
      else
        [of_nat (0xF0 + c div 0x40000), of_nat (0x80 + c div 0x1000 mod 0x40),
         of_nat (0x80 + c div 0x40 mod 0x40), of_nat (0x80 + c mod 0x40)])"

definition utf8 :: "pystr \<Rightarrow> byte list" where
  "utf8 s = concat (map utf8_codepoint s)"

definition encode_utf8 :: "pystr \<Rightarrow> pyexn + byte list" where
  "encode_utf8 s =
     (if list_all encodable s then Inr (utf8 s)
      else Inl (PyExn ''UnicodeEncodeError'' ''surrogates not allowed''))"

definition ascii_bytes :: "string \<Rightarrow> byte list" where
  "ascii_bytes s = map (\<lambda>c. of_nat (of_char c)) s"

text \<open>
  The printer device \<open>/dev/usb/lp0\<close>: \<open>open\<close> and \<open>write\<close> may raise \<open>OSError\<close>
  (the description, when they do), and the device records each \<open>write\<close> call it
  received, in order. A write that raises delivers nothing in the model.
\<close>

record device =
  open_error :: "string option"
  write_error :: "string option"
  writes :: "byte list list"

definition print_message :: "device \<Rightarrow> pystr \<Rightarrow> (pyexn + unit) \<times> device" where
  "print_message printer message =
     (let esc_init = [0x1B, 0x40];
          feed_and_cut = [0x1B, 0x64, 0x05, 0x1D, 0x56, 0x00]
      in case encode_utf8 message of
           Inl e \<Rightarrow> (Inl e, printer)
         | Inr encoded \<Rightarrow>
             (let data = esc_init @ encoded @ [0x0A] @ feed_and_cut
              in case open_error printer of
                   Some d \<Rightarrow> (Inl (PyExn ''OSError'' d), printer)
                 | None \<Rightarrow>
                     (case write_error printer of
                        Some d \<Rightarrow> (Inl (PyExn ''OSError'' d), printer)
                      | None \<Rightarrow> (Inr (), printer\<lparr>writes := writes printer @ [data]\<rparr>))))"

definition idle_printer :: device where
  "idle_printer = \<lparr>open_error = None, write_error = None, writes = []\<rparr>"

section \<open>Runtime functions used by the submission pipeline\<close>

text \<open>
  \<open>str.strip()\<close> removes leading and trailing whitespace; which code points are
  whitespace (\<open>str.isspace\<close>) is the runtime's table, a parameter of the model.
\<close>

definition strip :: "(codepoint \<Rightarrow> bool) \<Rightarrow> pystr \<Rightarrow> pystr" where
  "strip isspace s = rev (dropWhile isspace (rev (dropWhile isspace s)))"

text \<open>The whitespace of ASCII, for evaluating the model on concrete inputs.\<close>

definition sample_isspace :: "codepoint \<Rightarrow> bool" where
  "sample_isspace c = ((0x09 \<le> c \<and> c \<le> 0x0D) \<or> (0x1C \<le> c \<and> c \<le> 0x20))"

text \<open>
  \<open>datetime.now(timezone.utc)\<close> is a reading of the clock, an input of the model.
  \<open>date().isoformat()\<close> prints \<open>YYYY-MM-DD\<close> and \<open>isoformat()\<close> of an aware UTC
  datetime prints \<open>YYYY-MM-DDTHH:MM:SS[.ffffff]+00:00\<close>, the fraction only when the
  microseconds are not zero.
\<close>

record datetime =
  year :: nat
  month :: nat
  day :: nat
  hour :: nat
  minute :: nat
  second :: nat
  microsecond :: nat

definition digit :: "nat \<Rightarrow> char" where
  "digit n = ''0123456789'' ! (n mod 10)"

definition date_isoformat :: "datetime \<Rightarrow> string" where
  "date_isoformat t =
     [digit (year t div 1000), digit (year t div 100), digit (year t div 10), digit (year t)]
     @ ''-'' @ [digit (month t div 10), digit (month t)]
     @ ''-'' @ [digit (day t div 10), digit (day t)]"

definition datetime_isoformat :: "datetime \<Rightarrow> string" where
  "datetime_isoformat t =
     date_isoformat t
     @ ''T'' @ [digit (hour t div 10), digit (hour t)]
     @ '':'' @ [digit (minute t div 10), digit (minute t)]
     @ '':'' @ [digit (second t div 10), digit (second t)]
     @ (if microsecond t = 0 then []
        else ''.'' @ [digit (microsecond t div 100000), digit (microsecond t div 10000),
                      digit (microsecond t div 1000), digit (microsecond t div 100),
                      digit (microsecond t div 10), digit (microsecond t)])
     @ ''+00:00''"

text \<open>The decimal numeral of a natural number, as an f-string prints it.\<close>

function str_nat :: "nat \<Rightarrow> string" where
  "str_nat n = (if n < 10 then [digit n] else str_nat (n div 10) @ [digit n])"
  by pat_completeness auto
termination
  by (relation "measure (\<lambda>n. n)") auto

declare str_nat.simps [simp del]

section \<open>Message store (app.py, approve.py)\<close>

text \<open>
  The SQLite table \<open>messages\<close>. A row has the columns of \<open>init_db\<close>; \<open>commentary\<close>
  is the column that approve.py writes, \<open>NULL\<close> (\<open>None\<close>) unless written. The database
  records which columns its table was created with, and the largest id ever given
  (\<open>AUTOINCREMENT\<close> never reuses one).
\<close>

record row =
  row_id :: nat
  message :: pystr
  submitted_at :: string
  ip_hash :: string
  gallery_approved :: int
  commentary :: "pystr option"

record database =
  columns :: "string list"
  rows :: "row list"
  last_id :: nat

text \<open>\<open>CREATE TABLE IF NOT EXISTS\<close>: a database file that has the table is left as it is.\<close>

definition init_db :: "database option \<Rightarrow> database" where
  "init_db file =
     (case file of
        Some db \<Rightarrow> db
      | None \<Rightarrow> \<lparr>columns = [''id'', ''message'', ''submitted_at'', ''ip_hash'', ''gallery_approved''],
                 rows = [], last_id = 0\<rparr>)"

text \<open>The \<open>INSERT\<close> of \<open>submit\<close>: a fresh id, \<open>gallery_approved\<close> at its default 0.\<close>

definition insert_message :: "database \<Rightarrow> pystr \<Rightarrow> string \<Rightarrow> string \<Rightarrow> database" where
  "insert_message db clean stamp hash =
     (let new_id = Suc (fold max (map row_id (rows db)) (last_id db))
      in db\<lparr>rows := rows db @
                [\<lparr>row_id = new_id, message = clean, submitted_at = stamp, ip_hash = hash,
                  gallery_approved = 0, commentary = None\<rparr>],
             last_id := new_id\<rparr>)"

text \<open>
  \<open>SELECT COUNT(*) FROM messages WHERE submitted_at >= ?\<close>: SQLite compares \<open>TEXT\<close>
  values byte by byte, a proper prefix being smaller, which is the lexicographic order
  of strings.
\<close>

definition count_since :: "database \<Rightarrow> string \<Rightarrow> int" where
  "count_since db today = int (length (filter (\<lambda>r. today \<le> submitted_at r) (rows db)))"

section \<open>Submission pipeline (app.py)\<close>

definition MAX_LENGTH :: nat where
  "MAX_LENGTH = 10000"

text \<open>
  What the process is configured with: the runtime's Unicode tables, the value of
  \<open>DAILY_GLOBAL_LIMIT\<close> (read from the environment, 30 by default), and
  \<open>hashlib.sha256(...).hexdigest()\<close>.
\<close>

record env =
  unicodedata_category :: "codepoint \<Rightarrow> string"
  str_isspace :: "codepoint \<Rightarrow> bool"
  DAILY_GLOBAL_LIMIT :: int
  sha256_hexdigest :: "string \<Rightarrow> string"

text \<open>
  One request to \<open>POST /submit\<close>: the client's address and message, the decision of the
  \<open>3/hour\<close> limiter of slowapi for that address, the two readings of the clock
  (for \<open>today\<close> and for the row's timestamp), and what the POST to \<open>PRINTER_URL\<close>
  does for a given message: \<open>urlopen\<close> raises (no connection, timeout, an HTTP error
  status) or returns a response with a status.
\<close>

record submission =
  remote_address :: string
  body_message :: pystr
  limiter_allows :: bool
  now_today :: datetime
  now_insert :: datetime
  urlopen :: "pystr \<Rightarrow> pyexn + nat"

datatype http_exception = HTTPException (status_code: nat) (detail: string)

datatype submit_reply = Status_ok

definition call_printer :: "(pystr \<Rightarrow> pyexn + nat) \<Rightarrow> pystr \<Rightarrow> pyexn + unit" where
  "call_printer post msg =
     (case post msg of
        Inl e \<Rightarrow> Inl e
      | Inr status \<Rightarrow>
          if status \<noteq> 200 then Inl (PyExn ''RuntimeError'' (''Printer returned '' @ str_nat status))
          else Inr ())"

definition validate_message :: "pystr \<Rightarrow> pyexn + pystr" where
  "validate_message v =
     (if length v > MAX_LENGTH
      then Inl (PyExn ''ValueError'' (''Message exceeds '' @ str_nat MAX_LENGTH @ '' characters''))
      else Inr v)"

text \<open>
  The body of \<open>submit\<close>. The \<open>with sqlite3.connect(...)\<close> block commits when it is left
  normally and the printer is called after it, so the inserted row stays whatever the
  printer does. Failures of the database itself are not modelled.
\<close>

definition submit :: "env \<Rightarrow> database \<Rightarrow> submission \<Rightarrow> (http_exception + submit_reply) \<times> database" where
  "submit e db req =
     (let clean = strip (str_isspace e) (sanitize (unicodedata_category e) (body_message req))
      in if clean = [] then (Inl (HTTPException 400 ''Message contains no printable content''), db)
         else
           let today = date_isoformat (now_today req);
               hash = take 16 (sha256_hexdigest e (remote_address req));
               count_today = count_since db today
           in if count_today \<ge> DAILY_GLOBAL_LIMIT e
              then (Inl (HTTPException 429 ''Daily message limit reached. Try again tomorrow.''), db)
              else
                let db' = insert_message db clean (datetime_isoformat (now_insert req)) hash
                in case call_printer (urlopen req) clean of
                     Inl x \<Rightarrow> (Inl (HTTPException 502 (''Printer unavailable: '' @ exn_str x)), db')
                   | Inr _ \<Rightarrow> (Inr Status_ok, db'))"

text \<open>
  The route \<open>POST /submit\<close> as FastAPI runs it: the body is validated into a
  \<open>SubmitRequest\<close> (a validation error is answered with 422), then the limiter's
  decorator runs (429 when the address is over its rate), then \<open>submit\<close>.
\<close>

definition post_submit :: "env \<Rightarrow> database \<Rightarrow> submission \<Rightarrow> (http_exception + submit_reply) \<times> database" where
  "post_submit e db req =
     (case validate_message (body_message req) of
        Inl x \<Rightarrow> (Inl (HTTPException 422 (exn_str x)), db)
      | Inr v \<Rightarrow>
          if \<not> limiter_allows req then (Inl (HTTPException 429 ''Rate limit exceeded: 3 per 1 hour''), db)
          else submit e db (req\<lparr>body_message := v\<rparr>))"

text \<open>The outcomes of the pipeline, by the names the specification gives them.\<close>

definition EmptyContent :: http_exception where
  "EmptyContent = HTTPException 400 ''Message contains no printable content''"

definition DailyLimitReached :: http_exception where
  "DailyLimitReached = HTTPException 429 ''Daily message limit reached. Try again tomorrow.''"

definition PrinterUnavailable :: "pyexn \<Rightarrow> http_exception" where
  "PrinterUnavailable x = HTTPException 502 (''Printer unavailable: '' @ exn_str x)"

definition sample_env :: env where
  "sample_env = \<lparr>unicodedata_category = sample_category, str_isspace = sample_isspace,
                  DAILY_GLOBAL_LIMIT = 1, sha256_hexdigest = (\<lambda>a. ''9f86d081884c7d659a2feaa0c55ad015a3bf4f1b'')\<rparr>"

section \<open>Moderation tool (approve.py)\<close>

text \<open>
  \<open>str.lower()\<close> on the operator's answer, which is only compared with \<open>"y"\<close>: the
  ASCII capitals are lowered, and no code point outside ASCII lowercases to \<open>y\<close>.
\<close>

definition lower :: "pystr \<Rightarrow> pystr" where
  "lower s = map (\<lambda>c. if 0x41 \<le> c \<and> c \<le> 0x5A then c + 0x20 else c) s"

datatype approve_outcome = No_pending_message | Cancelled | Approved

text \<open>
  \<open>approve_message\<close> reads two lines from the operator with \<open>input()\<close> (\<open>None\<close>: end
  of input, which raises \<open>EOFError\<close>). Its \<open>UPDATE\<close> names the column \<open>commentary\<close>;
  SQLite refuses a statement that names a column the table does not have.
\<close>

definition approve_message ::
    "(codepoint \<Rightarrow> bool) \<Rightarrow> database \<Rightarrow> nat \<Rightarrow> pystr option \<Rightarrow> pystr option
      \<Rightarrow> (pyexn + approve_outcome) \<times> database" where
  "approve_message isspace conn message_id commentary_line confirm_line =
     (case find (\<lambda>r. row_id r = message_id \<and> gallery_approved r = 0) (rows conn) of
        None \<Rightarrow> (Inr No_pending_message, conn)
      | Some found \<Rightarrow>
          (case commentary_line of
             None \<Rightarrow> (Inl (PyExn ''EOFError'' ''EOF when reading a line''), conn)
           | Some typed \<Rightarrow>
               (let note = strip isspace typed
                in case confirm_line of
                     None \<Rightarrow> (Inl (PyExn ''EOFError'' ''EOF when reading a line''), conn)
                   | Some answer \<Rightarrow>
                       (let confirm = lower (strip isspace answer)
                        in if confirm \<noteq> [0x79] then (Inr Cancelled, conn)
                           else if ''commentary'' \<notin> set (columns conn)
                           then (Inl (PyExn ''sqlite3.OperationalError'' ''no such column: commentary''), conn)
                           else (Inr Approved,
                                 conn\<lparr>rows := map (\<lambda>r. if row_id r = row_id found
                                                         then r\<lparr>gallery_approved := 1,
                                                                commentary := (if note = [] then None else Some note)\<rparr>
                                                         else r) (rows conn)\<rparr>)))))"

section \<open>Operations on the store\<close>

text \<open>The operations that write to the store: a request to the route, an approval.\<close>

datatype operation = Submit submission | Approve nat "pystr option" "pystr option"

definition apply_operation :: "env \<Rightarrow> database \<Rightarrow> operation \<Rightarrow> database" where
  "apply_operation e db op =
     (case op of
        Submit req \<Rightarrow> snd (post_submit e db req)
      | Approve message_id commentary_line confirm_line \<Rightarrow>
          snd (approve_message (str_isspace e) db message_id commentary_line confirm_line))"

text \<open>
  The invariant of a stored text, in the words of the specification: not empty, at most
  10,000 code points, and every code point either a newline or neither an ASCII control
  (0x00..0x1F, 0x7F) nor of a general category beginning with \<open>C\<close>.
\<close>

definition text_invariant :: "(codepoint \<Rightarrow> string) \<Rightarrow> pystr \<Rightarrow> bool" where
  "text_invariant cat s =
     (s \<noteq> [] \<and> 1 \<le> length s \<and> length s \<le> 10000 \<and>
      list_all (\<lambda>c. c = 0x0A \<or> (c \<ge> 0x20 \<and> c \<noteq> 0x7F \<and> take 1 (cat c) \<noteq> ''C'')) s)"

section \<open>Sample inputs\<close>

definition sample_now :: datetime where
  "sample_now = \<lparr>year = 2026, month = 11, day = 4, hour = 23, minute = 59, second = 58,
                  microsecond = 0\<rparr>"

definition sample_request :: submission where
  "sample_request =
     \<lparr>remote_address = ''10.0.0.7'', body_message = [0x20, 0x68, 0x1B, 0x69, 0x0A],
      limiter_allows = True, now_today = sample_now, now_insert = sample_now,
      urlopen = (\<lambda>m. Inr 200)\<rparr>"

definition sample_row :: "string \<Rightarrow> row" where
  "sample_row stamp =
     \<lparr>row_id = 1, message = [0x68, 0x69], submitted_at = stamp, ip_hash = ''9f86d081884c7d65'',
      gallery_approved = 0, commentary = None\<rparr>"

definition sample_db :: "string \<Rightarrow> database" where
  "sample_db stamp = (init_db None)\<lparr>rows := [sample_row stamp], last_id := 1\<rparr>"

section \<open>Printer bridge: the HTTP handler (printer-server.py)\<close>

text \<open>
  A value that \<open>json.loads\<close> returns. An object is its list of members; \<open>json.loads\<close>
  keeps one value per key.
\<close>

datatype json =
    JNull
  | JBool bool
  | JNumber int
  | JString pystr
  | JArray "json list"
  | JObject "(pystr \<times> json) list"

text \<open>
  The runtime of the bridge: \<open>int()\<close> on a header value, \<open>sys.maxsize\<close> (the
  largest size the platform's readers accept), \<open>json.loads\<close> on the body, and the
  whitespace table of \<open>str.strip\<close>. \<open>int()\<close> and \<open>json.loads\<close> raise on input
  they do not accept.
\<close>

record bridge =
  py_int :: "string \<Rightarrow> pyexn + int"
  sys_maxsize :: int
  json_loads :: "byte list \<Rightarrow> pyexn + json"
  bridge_isspace :: "codepoint \<Rightarrow> bool"

text \<open>
  A POST request as the handler reads it: the path, the \<open>Content-Length\<close> header when
  there is one, and the bytes that \<open>rfile\<close> can deliver. A response is the status of
  \<open>send_response\<close> and the bytes written to \<open>wfile\<close>.
\<close>

record request =
  path :: string
  content_length_header :: "string option"
  rfile :: "byte list"

record response =
  status_line :: nat
  wfile :: "byte list"

text \<open>
  \<open>rfile.read(n)\<close> on the buffered reader of the connection: a size outside the range
  of the platform's \<open>ssize_t\<close> raises \<open>OverflowError\<close>, a size below -1 raises
  \<open>ValueError\<close>, the size -1 reads all there is, and any other size reads that many
  bytes, or fewer when the stream ends.
\<close>

definition rfile_read :: "int \<Rightarrow> byte list \<Rightarrow> int \<Rightarrow> pyexn + byte list" where
  "rfile_read maxsize stream n =
     (if n > maxsize \<or> n < - maxsize - 1
      then Inl (PyExn ''OverflowError'' ''Python int too large to convert to C ssize_t'')
      else if n < - 1
      then Inl (PyExn ''ValueError'' ''read length must be non-negative or -1'')
      else if n = - 1 then Inr stream
      else Inr (take (nat n) stream))"

text \<open>
  \<open>length = int(self.headers.get("Content-Length", 0))\<close> and
  \<open>body = self.rfile.read(length)\<close>. Both come before the \<open>try\<close>.
\<close>

definition read_body :: "bridge \<Rightarrow> request \<Rightarrow> pyexn + byte list" where
  "read_body rt req =
     (case (case content_length_header req of None \<Rightarrow> Inr 0 | Some h \<Rightarrow> py_int rt h) of
        Inl x \<Rightarrow> Inl x
      | Inr len \<Rightarrow> rfile_read (sys_maxsize rt) (rfile req) len)"

definition message_key :: pystr where
  "message_key = map of_char ''message''"

text \<open>\<open>payload.get("message", "")\<close>: only a dict has \<open>get\<close>.\<close>

definition payload_get_message :: "json \<Rightarrow> pyexn + json" where
  "payload_get_message payload =
     (case payload of
        JObject members \<Rightarrow>
          Inr (case map_of members message_key of None \<Rightarrow> JString [] | Some v \<Rightarrow> v)
      | _ \<Rightarrow> Inl (PyExn ''AttributeError'' ''object has no attribute get''))"

text \<open>
  The \<open>try\<close> block of \<open>do_POST\<close>: \<open>Inl\<close> is the exception it raises, \<open>Inr\<close> the
  response it has written.
\<close>

definition try_print :: "bridge \<Rightarrow> device \<Rightarrow> byte list \<Rightarrow> (pyexn + response) \<times> device" where
  "try_print rt printer body =
     (case json_loads rt body of
        Inl x \<Rightarrow> (Inl x, printer)
      | Inr payload \<Rightarrow>
          (case payload_get_message payload of
             Inl x \<Rightarrow> (Inl x, printer)
           | Inr (JString s) \<Rightarrow>
               (let msg = strip (bridge_isspace rt) s
                in if msg = [] then (Inr \<lparr>status_line = 400, wfile = ascii_bytes ''Missing message''\<rparr>, printer)
                   else case print_message printer msg of
                          (Inl x, printer') \<Rightarrow> (Inl x, printer')
                        | (Inr _, printer') \<Rightarrow> (Inr \<lparr>status_line = 200, wfile = ascii_bytes ''OK''\<rparr>, printer'))
           | Inr _ \<Rightarrow> (Inl (PyExn ''AttributeError'' ''object has no attribute strip''), printer)))"

text \<open>
  \<open>do_POST\<close>. The length and the body are read before the \<open>try\<close>, so an exception
  of \<open>int()\<close> or of \<open>rfile.read\<close> leaves the handler (\<open>Inl\<close>) and no response is
  written.
\<close>

definition do_POST :: "bridge \<Rightarrow> device \<Rightarrow> request \<Rightarrow> (pyexn + response) \<times> device" where
  "do_POST rt printer req =
     (if path req \<noteq> ''/print'' then (Inr \<lparr>status_line = 404, wfile = []\<rparr>, printer)
      else case read_body rt req of
             Inl x \<Rightarrow> (Inl x, printer)
           | Inr body \<Rightarrow>
               (case try_print rt printer body of
                  (Inl x, printer') \<Rightarrow>
                    (Inr \<lparr>status_line = 500, wfile = ascii_bytes (exn_str x)\<rparr>, printer')
                | (Inr r, printer') \<Rightarrow> (Inr r, printer')))"



text \<open>
  A sample runtime: \<open>int()\<close> knows the header values \<open>16\<close>, \<open>17\<close> and \<open>-5\<close>,
  \<open>sys.maxsize\<close> is that of a 64-bit platform, and
  \<open>json.loads\<close> the two bodies \<open>{"message": " "}\<close> and \<open>{"message": "hi"}\<close>.
\<close>

definition blank_body :: "byte list" where
  "blank_body = [0x7B, 0x22, 0x6D, 0x65, 0x73, 0x73, 0x61, 0x67, 0x65, 0x22, 0x3A, 0x20,
                 0x22, 0x20, 0x22, 0x7D]"

definition hi_body :: "byte list" where
  "hi_body = [0x7B, 0x22, 0x6D, 0x65, 0x73, 0x73, 0x61, 0x67, 0x65, 0x22, 0x3A, 0x20,
              0x22, 0x68, 0x69, 0x22, 0x7D]"

definition sample_bridge :: bridge where
  "sample_bridge =
     \<lparr>py_int = (\<lambda>h. if h = ''16'' then Inr 16 else if h = ''17'' then Inr 17
                     else if h = ''-5'' then Inr (- 5)
                     else Inl (PyExn ''ValueError'' ''invalid literal for int() with base 10'')),
      sys_maxsize = 9223372036854775807,
      json_loads = (\<lambda>b. if b = blank_body then Inr (JObject [(message_key, JString [0x20])])
                         else if b = hi_body then Inr (JObject [(message_key, JString [0x68, 0x69])])
                         else Inl (PyExn ''JSONDecodeError'' ''Expecting value: line 1 column 1 (char 0)'')),
      bridge_isspace = sample_isspace\<rparr>"


definition hi_request :: request where
  "hi_request = \<lparr>path = ''/print'', content_length_header = Some ''17'', rfile = hi_body\<rparr>"

section \<open>Properties of the sanitizer\<close>

lemma sanitize_loop_filter:
  "sanitize_loop category text result =
     result @ filter (\<lambda>c. c = 0x0A \<or> \<not> (c < 0x20 \<or> c = 0x7F \<or> startswith (category c) ''C'')) text"
  by (induction "text" arbitrary: result) auto

lemma sanitize_filter:
  "sanitize category text =
     filter (\<lambda>c. c = 0x0A \<or> \<not> (c < 0x20 \<or> c = 0x7F \<or> startswith (category c) ''C'')) text"
  by (simp add: sanitize_def sanitize_loop_filter)

text \<open>
  Claim C4. For every input, \<open>sanitize\<close> keeps exactly the newlines and the code points
  that are neither in 0x00..0x1F, nor 0x7F, nor of a general category beginning with
  \<open>C\<close>, in their original order (it is that filter of the input); and
  \<open>"Hello\x1bWorld\n\x07!"\<close> sanitizes to \<open>"HelloWorld\n!"\<close> whenever the category of
  its letters and of \<open>!\<close> does not begin with \<open>C\<close>.
\<close>

theorem sanitize_removes_controls_keeps_rest:
  "sanitize category text =
     filter (\<lambda>c. c = 0x0A \<or> \<not> (c < 0x20 \<or> c = 0x7F \<or> startswith (category c) ''C'')) text
   \<and> ((\<forall>c \<in> set (map of_char ''HelloWorld!''). \<not> startswith (category c) ''C'') \<longrightarrow>
        sanitize category (map of_char ''Hello'' @ [0x1B] @ map of_char ''World'' @ [0x0A, 0x07, 0x21])
          = map of_char ''HelloWorld'' @ [0x0A, 0x21])"
  by (simp add: sanitize_filter)

theorem sanitize_removes_controls_keeps_rest_witness:
  "sanitize sample_category (map of_char ''Hello'' @ [0x1B] @ map of_char ''World'' @ [0x0A, 0x07, 0x21])
       = map of_char ''HelloWorld'' @ [0x0A, 0x21]
   \<and> sanitize sample_category [0x61, 0x09, 0xAD, 0x0A, 0x7F, 0x62] = [0x61, 0x0A, 0x62]"
proof -
  have h: "\<forall>c \<in> set (map of_char ''HelloWorld!''). \<not> startswith (sample_category c) ''C''"
    by (simp add: sample_category_def startswith_def)
  have e: "filter (\<lambda>c. c = 0x0A \<or> \<not> (c < 0x20 \<or> c = 0x7F \<or> startswith (sample_category c) ''C''))
             [0x61, 0x09, 0xAD, 0x0A, 0x7F, 0x62] = [0x61, 0x0A, 0x62::nat]"
    by (simp add: sample_category_def startswith_def)
  from sanitize_removes_controls_keeps_rest [of sample_category "[0x61, 0x09, 0xAD, 0x0A, 0x7F, 0x62]"]
  have a: "sanitize sample_category [0x61, 0x09, 0xAD, 0x0A, 0x7F, 0x62] = [0x61, 0x0A, 0x62]"
    using e by simp
  from sanitize_removes_controls_keeps_rest [of sample_category "[]"] h
  have b: "sanitize sample_category (map of_char ''Hello'' @ [0x1B] @ map of_char ''World'' @ [0x0A, 0x07, 0x21])
       = map of_char ''HelloWorld'' @ [0x0A, 0x21]"
    by blast
  from a b show ?thesis by blast
qed

text \<open>
  Claim C8. \<open>sanitize\<close> is idempotent: sanitizing a sanitized text changes nothing.
\<close>

theorem sanitize_idempotent:
  "sanitize category (sanitize category x) = sanitize category x"
  by (simp add: sanitize_filter)

section \<open>Trimming and sanitizing only remove code points\<close>

lemma set_strip: "set (strip f s) \<subseteq> set s"
proof -
  have "set (strip f s) \<subseteq> set (rev (dropWhile f s))"
    unfolding strip_def using set_dropWhileD by fastforce
  also have "\<dots> \<subseteq> set s"
    using set_dropWhileD by fastforce
  finally show ?thesis .
qed

lemma length_strip: "length (strip f s) \<le> length s"
proof -
  have "length (strip f s) \<le> length (dropWhile f s)"
    using length_dropWhile_le [of f "rev (dropWhile f s)"] by (simp add: strip_def)
  also have "\<dots> \<le> length s"
    by (rule length_dropWhile_le)
  finally show ?thesis .
qed

lemma length_sanitize: "length (sanitize cat s) \<le> length s"
  by (simp add: sanitize_filter)

lemma sanitize_kept:
  "c \<in> set (sanitize cat s) \<Longrightarrow> c = 0x0A \<or> (c \<ge> 0x20 \<and> c \<noteq> 0x7F \<and> take 1 (cat c) \<noteq> ''C'')"
  by (auto simp add: sanitize_filter startswith_def)

lemma filter_length_mono:
  "(\<And>x. x \<in> set xs \<Longrightarrow> P x \<Longrightarrow> Q x) \<Longrightarrow> length (filter P xs) \<le> length (filter Q xs)"
  by (induction xs) auto

lemma prefix_le: "(t::string) \<le> s \<longleftrightarrow> t \<le> take (length t) s"
proof (induction t arbitrary: s)
  case Nil
  then show ?case by simp
next
  case (Cons a t)
  then show ?case by (cases s) auto
qed

lemma length_date_isoformat: "length (date_isoformat t) = 10"
  by (simp add: date_isoformat_def)

lemma date_le_stamp: "date_isoformat t \<le> s \<longleftrightarrow> date_isoformat t \<le> take 10 s"
  using prefix_le [of "date_isoformat t" s] by (simp add: length_date_isoformat)

section \<open>Properties of the submission pipeline\<close>

text \<open>
  Claim C5. A submission whose text is empty after sanitizing and trimming ends in
  \<open>EmptyContent\<close> (HTTP 400) and leaves the store as it was; through the route, where
  validation and the rate limiter come first, the store is unchanged as well.
\<close>

theorem empty_content_rejected:
  assumes "strip (str_isspace e) (sanitize (unicodedata_category e) (body_message req)) = []"
  shows "submit e db req = (Inl EmptyContent, db) \<and> snd (post_submit e db req) = db"
  using assms
  by (simp add: submit_def post_submit_def EmptyContent_def validate_message_def)

theorem empty_content_rejected_witness:
  "submit sample_env (sample_db ''2026-11-03T10:00:00+00:00'') (sample_request\<lparr>body_message := [0x20, 0x1B, 0x0A]\<rparr>)
     = (Inl (HTTPException 400 ''Message contains no printable content''),
        sample_db ''2026-11-03T10:00:00+00:00'')"
proof -
  have "strip (str_isspace sample_env)
          (sanitize (unicodedata_category sample_env)
             (body_message (sample_request\<lparr>body_message := [0x20, 0x1B, 0x0A]\<rparr>))) = []"
    by (simp add: sample_env_def strip_def sanitize_def sample_isspace_def sample_category_def
        startswith_def)
  from empty_content_rejected [OF this, of "sample_db ''2026-11-03T10:00:00+00:00''"]
  show ?thesis by (simp add: EmptyContent_def)
qed

text \<open>
  Claim C2. When a submission has passed the empty check and the quota check, so that its
  row is inserted, and the call to the printer then fails, the result is
  \<open>PrinterUnavailable\<close> (HTTP 502) and the store is the old store followed by the new
  row, whose text is the cleaned text: nothing is rolled back.
\<close>

theorem printer_failure_keeps_message:
  assumes "strip (str_isspace e) (sanitize (unicodedata_category e) (body_message req)) = clean"
    and "clean \<noteq> []"
    and "count_since db (date_isoformat (now_today req)) < DAILY_GLOBAL_LIMIT e"
    and "call_printer (urlopen req) clean = Inl x"
  shows "fst (submit e db req) = Inl (PrinterUnavailable x)
         \<and> rows (snd (submit e db req)) =
             rows db @ [\<lparr>row_id = Suc (fold max (map row_id (rows db)) (last_id db)),
                         message = clean,
                         submitted_at = datetime_isoformat (now_insert req),
                         ip_hash = take 16 (sha256_hexdigest e (remote_address req)),
                         gallery_approved = 0, commentary = None\<rparr>]"
  using assms
  by (simp add: submit_def PrinterUnavailable_def insert_message_def Let_def)


theorem printer_failure_keeps_message_witness:
  "fst (submit sample_env (init_db None) (sample_request\<lparr>urlopen := (\<lambda>m. Inr 503)\<rparr>))
     = Inl (HTTPException 502 ''Printer unavailable: Printer returned 503'')
   \<and> rows (snd (submit sample_env (init_db None) (sample_request\<lparr>urlopen := (\<lambda>m. Inr 503)\<rparr>)))
     = [\<lparr>row_id = 1, message = [0x68, 0x69], submitted_at = ''2026-11-04T23:59:58+00:00'',
         ip_hash = ''9f86d081884c7d65'', gallery_approved = 0, commentary = None\<rparr>]"
proof -
  let ?req = "sample_request\<lparr>urlopen := (\<lambda>m. Inr 503)\<rparr>"
  have h1: "strip (str_isspace sample_env)
              (sanitize (unicodedata_category sample_env) (body_message ?req)) = [0x68, 0x69]"
    by (simp add: sample_env_def sample_request_def strip_def sanitize_def sample_isspace_def
        sample_category_def startswith_def)
  have h2: "[0x68, 0x69] \<noteq> ([] :: pystr)"
    by simp
  have h3: "count_since (init_db None) (date_isoformat (now_today ?req)) < DAILY_GLOBAL_LIMIT sample_env"
    by (simp add: count_since_def init_db_def sample_env_def)
  have h4: "call_printer (urlopen ?req) [0x68, 0x69]
              = Inl (PyExn ''RuntimeError'' ''Printer returned 503'')"
    by (simp add: call_printer_def str_nat.simps digit_def)
  have stamp: "datetime_isoformat (now_insert ?req) = ''2026-11-04T23:59:58+00:00''"
    by (simp add: sample_request_def sample_now_def datetime_isoformat_def date_isoformat_def
        digit_def)
  from printer_failure_keeps_message [OF h1 h2 h3 h4] stamp
  show ?thesis
    by (simp add: PrinterUnavailable_def init_db_def sample_env_def sample_request_def)
qed

section \<open>The daily quota\<close>

lemma count_since_date:
  "count_since db (date_isoformat t) =
     int (length (filter (\<lambda>r. date_isoformat t \<le> take 10 (submitted_at r)) (rows db)))"
proof -
  have "filter (\<lambda>r. date_isoformat t \<le> submitted_at r) (rows db)
          = filter (\<lambda>r. date_isoformat t \<le> take 10 (submitted_at r)) (rows db)"
    by (rule filter_cong) (simp_all add: date_le_stamp [symmetric])
  then show ?thesis by (simp add: count_since_def)
qed

lemma count_since_today_only:
  assumes "\<forall>r \<in> set (rows db). take 10 (submitted_at r) \<le> date_isoformat t"
  shows "count_since db (date_isoformat t) =
           int (length (filter (\<lambda>r. take 10 (submitted_at r) = date_isoformat t) (rows db)))"
proof -
  have "filter (\<lambda>r. date_isoformat t \<le> take 10 (submitted_at r)) (rows db)
          = filter (\<lambda>r. take 10 (submitted_at r) = date_isoformat t) (rows db)"
    using assms by (intro filter_cong) auto
  then show ?thesis by (simp add: count_since_date)
qed

lemma count_since_at_least_today:
  "int (length (filter (\<lambda>r. take 10 (submitted_at r) = date_isoformat t) (rows db)))
     \<le> count_since db (date_isoformat t)"
proof -
  have "length (filter (\<lambda>r. take 10 (submitted_at r) = date_isoformat t) (rows db))
          \<le> length (filter (\<lambda>r. date_isoformat t \<le> take 10 (submitted_at r)) (rows db))"
    by (rule filter_length_mono) simp
  then show ?thesis by (simp add: count_since_date)
qed

text \<open>
  Claim C1, as amended. \<open>submit\<close> counts the rows whose \<open>submitted_at\<close> is
  lexicographically at or after today's date string, that is, the rows whose date (the
  first ten characters of the timestamp) is today's \<^emph>\<open>or a later one\<close>. When no row is
  dated after today these are exactly the rows dated today. In every case a store with
  exactly \<open>DAILY_GLOBAL_LIMIT\<close> rows dated today answers a valid submission with
  \<open>DailyLimitReached\<close> and is left unchanged.
\<close>

theorem quota_counts_today_or_later:
  "count_since db (date_isoformat t) =
      int (length (filter (\<lambda>r. date_isoformat t \<le> take 10 (submitted_at r)) (rows db)))
   \<and> ((\<forall>r \<in> set (rows db). take 10 (submitted_at r) \<le> date_isoformat t) \<longrightarrow>
        count_since db (date_isoformat t) =
          int (length (filter (\<lambda>r. take 10 (submitted_at r) = date_isoformat t) (rows db))))
   \<and> (strip (str_isspace e) (sanitize (unicodedata_category e) (body_message req)) \<noteq> []
        \<and> int (length (filter (\<lambda>r. take 10 (submitted_at r) = date_isoformat (now_today req)) (rows db)))
            = DAILY_GLOBAL_LIMIT e
      \<longrightarrow> submit e db req = (Inl DailyLimitReached, db))"
proof (intro conjI impI)
  show "count_since db (date_isoformat t) =
      int (length (filter (\<lambda>r. date_isoformat t \<le> take 10 (submitted_at r)) (rows db)))"
    by (rule count_since_date)
next
  assume "\<forall>r \<in> set (rows db). take 10 (submitted_at r) \<le> date_isoformat t"
  then show "count_since db (date_isoformat t) =
          int (length (filter (\<lambda>r. take 10 (submitted_at r) = date_isoformat t) (rows db)))"
    by (rule count_since_today_only)
next
  assume a: "strip (str_isspace e) (sanitize (unicodedata_category e) (body_message req)) \<noteq> []
        \<and> int (length (filter (\<lambda>r. take 10 (submitted_at r) = date_isoformat (now_today req)) (rows db)))
            = DAILY_GLOBAL_LIMIT e"
  then have "DAILY_GLOBAL_LIMIT e \<le> count_since db (date_isoformat (now_today req))"
    using count_since_at_least_today [of "now_today req" db] by simp
  with a show "submit e db req = (Inl DailyLimitReached, db)"
    by (simp add: submit_def DailyLimitReached_def Let_def)
qed

theorem quota_counts_today_or_later_witness:
  "submit sample_env (sample_db ''2026-11-04T08:00:00+00:00'') sample_request
     = (Inl (HTTPException 429 ''Daily message limit reached. Try again tomorrow.''),
        sample_db ''2026-11-04T08:00:00+00:00'')
   \<and> count_since (sample_db ''2026-11-04T08:00:00+00:00'') (date_isoformat sample_now) = 1"
proof -
  let ?db = "sample_db ''2026-11-04T08:00:00+00:00''"
  have today: "date_isoformat sample_now = ''2026-11-04''"
    by (simp add: sample_now_def date_isoformat_def digit_def)
  have h1: "strip (str_isspace sample_env)
              (sanitize (unicodedata_category sample_env) (body_message sample_request)) \<noteq> []"
    by (simp add: sample_env_def sample_request_def strip_def sanitize_def sample_isspace_def
        sample_category_def startswith_def)
  have h2: "int (length (filter (\<lambda>r. take 10 (submitted_at r) = date_isoformat (now_today sample_request))
              (rows ?db))) = DAILY_GLOBAL_LIMIT sample_env"
    by (simp add: sample_request_def today sample_db_def sample_row_def sample_env_def)
  have h3: "\<forall>r \<in> set (rows ?db). take 10 (submitted_at r) \<le> date_isoformat sample_now"
    by (simp add: today sample_db_def sample_row_def)
  from quota_counts_today_or_later [of ?db sample_now sample_env sample_request] h1 h2 h3
  have "submit sample_env ?db sample_request = (Inl DailyLimitReached, ?db)"
    and "count_since ?db (date_isoformat sample_now) =
          int (length (filter (\<lambda>r. take 10 (submitted_at r) = date_isoformat sample_now) (rows ?db)))"
    by blast+
  then show ?thesis
    by (simp add: DailyLimitReached_def today sample_db_def sample_row_def)
qed

text \<open>
  The claim as it was stated (counted if and only if the date equals today's) fails on a
  store whose only row is dated tomorrow: no row is dated today, yet the row is counted
  and, the limit being 1, the submission is refused.
\<close>

theorem quota_counts_only_today_counterexample:
  "count_since (sample_db ''2026-11-05T00:00:01+00:00'') (date_isoformat sample_now) = 1
   \<and> filter (\<lambda>r. take 10 (submitted_at r) = date_isoformat sample_now)
        (rows (sample_db ''2026-11-05T00:00:01+00:00'')) = []
   \<and> submit sample_env (sample_db ''2026-11-05T00:00:01+00:00'') sample_request
       = (Inl DailyLimitReached, sample_db ''2026-11-05T00:00:01+00:00'')"
proof -
  have today: "date_isoformat sample_now = ''2026-11-04''"
    by (simp add: sample_now_def date_isoformat_def digit_def)
  have c: "count_since (sample_db ''2026-11-05T00:00:01+00:00'') ''2026-11-04'' = 1"
    by (simp add: count_since_def sample_db_def sample_row_def)
  have h1: "strip (str_isspace sample_env)
              (sanitize (unicodedata_category sample_env) (body_message sample_request)) \<noteq> []"
    by (simp add: sample_env_def sample_request_def strip_def sanitize_def sample_isspace_def
        sample_category_def startswith_def)
  have s: "submit sample_env (sample_db ''2026-11-05T00:00:01+00:00'') sample_request
       = (Inl DailyLimitReached, sample_db ''2026-11-05T00:00:01+00:00'')"
    using h1 c by (simp add: submit_def Let_def DailyLimitReached_def sample_request_def today
        sample_env_def)
  show ?thesis using c s by (simp add: today sample_db_def sample_row_def)
qed


section \<open>The invariant of stored texts\<close>

lemma cleaned_text_invariant:
  assumes "length s \<le> MAX_LENGTH" and "strip f (sanitize cat s) \<noteq> []"
  shows "text_invariant cat (strip f (sanitize cat s))"
proof -
  have "length (strip f (sanitize cat s)) \<le> length s"
    using length_strip [of f "sanitize cat s"] length_sanitize [of cat s] by simp
  then have len: "length (strip f (sanitize cat s)) \<le> 10000"
    using assms(1) by (simp add: MAX_LENGTH_def)
  have pos: "1 \<le> length (strip f (sanitize cat s))"
    using assms(2) by (cases "strip f (sanitize cat s)") simp_all
  have chars: "list_all (\<lambda>c. c = 0x0A \<or> (c \<ge> 0x20 \<and> c \<noteq> 0x7F \<and> take 1 (cat c) \<noteq> ''C''))
                 (strip f (sanitize cat s))"
    unfolding list_all_iff using set_strip [of f "sanitize cat s"] sanitize_kept [of _ cat s]
    by blast
  from assms(2) pos len chars show ?thesis
    unfolding text_invariant_def by blast
qed

lemma submit_text_invariant:
  assumes "list_all (\<lambda>r. text_invariant (unicodedata_category e) (message r)) (rows db)"
    and "length (body_message req) \<le> MAX_LENGTH"
  shows "list_all (\<lambda>r. text_invariant (unicodedata_category e) (message r)) (rows (snd (submit e db req)))"
  using assms cleaned_text_invariant [of "body_message req" "str_isspace e" "unicodedata_category e"]
  by (simp add: submit_def Let_def insert_message_def split: sum.splits)

lemma post_submit_text_invariant:
  assumes "list_all (\<lambda>r. text_invariant (unicodedata_category e) (message r)) (rows db)"
  shows "list_all (\<lambda>r. text_invariant (unicodedata_category e) (message r)) (rows (snd (post_submit e db req)))"
proof (cases "length (body_message req) \<le> MAX_LENGTH \<and> limiter_allows req")
  case True
  then have "post_submit e db req = submit e db req"
    by (simp add: post_submit_def validate_message_def)
  with True assms show ?thesis
    by (simp add: submit_text_invariant)
next
  case False
  then have "snd (post_submit e db req) = db"
    by (auto simp add: post_submit_def validate_message_def)
  with assms show ?thesis by simp
qed

lemma approve_message_texts:
  "map message (rows (snd (approve_message f db i c k))) = map message (rows db)"
  by (simp add: approve_message_def Let_def comp_def if_distrib [of message]
      split: option.splits cong: if_cong)

lemma approve_text_invariant:
  assumes "list_all (\<lambda>r. text_invariant cat (message r)) (rows db)"
  shows "list_all (\<lambda>r. text_invariant cat (message r)) (rows (snd (approve_message f db i c k)))"
proof -
  have "list_all (text_invariant cat) (map message (rows db))"
    using assms by (simp add: list_all_iff)
  then have "list_all (text_invariant cat) (map message (rows (snd (approve_message f db i c k))))"
    by (simp only: approve_message_texts)
  then show ?thesis by (simp add: list_all_iff)
qed

lemma apply_operation_text_invariant:
  assumes "list_all (\<lambda>r. text_invariant (unicodedata_category e) (message r)) (rows db)"
  shows "list_all (\<lambda>r. text_invariant (unicodedata_category e) (message r)) (rows (apply_operation e db op))"
  using assms
  by (cases op) (simp_all add: apply_operation_def post_submit_text_invariant approve_text_invariant)

lemma run_text_invariant:
  assumes "list_all (\<lambda>r. text_invariant (unicodedata_category e) (message r)) (rows db)"
  shows "list_all (\<lambda>r. text_invariant (unicodedata_category e) (message r))
           (rows (foldl (apply_operation e) db ops))"
  using assms
proof (induction ops arbitrary: db)
  case Nil
  then show ?case by simp
next
  case (Cons op ops)
  then show ?case by (simp add: apply_operation_text_invariant)
qed

text \<open>
  Claim C9. Every text in the store is not empty, has between 1 and 10,000 code points,
  and each of its code points is a newline or else neither an ASCII control (0x00..0x1F,
  0x7F) nor of a general category beginning with \<open>C\<close> (the newline, itself a control
  character, is the one the claim exempts). The route and the approval preserve this, so
  it holds after any sequence of operations on a store that satisfies it, and on every
  store reached from a fresh database.
\<close>

theorem stored_text_invariant:
  "(list_all (\<lambda>r. text_invariant (unicodedata_category e) (message r)) (rows db) \<longrightarrow>
      list_all (\<lambda>r. text_invariant (unicodedata_category e) (message r))
        (rows (foldl (apply_operation e) db ops)))
   \<and> list_all (\<lambda>r. text_invariant (unicodedata_category e) (message r))
        (rows (foldl (apply_operation e) (init_db None) ops))"
proof -
  have "list_all (\<lambda>r. text_invariant (unicodedata_category e) (message r)) (rows (init_db None))"
    by (simp add: init_db_def)
  then show ?thesis
    using run_text_invariant by blast
qed

theorem stored_text_invariant_witness:
  "map message (rows (foldl (apply_operation sample_env) (init_db None)
      [Submit sample_request, Approve 1 (Some [0x6E]) (Some [0x79])])) = [[0x68, 0x69]]
   \<and> list_all (\<lambda>r. text_invariant sample_category (message r))
        (rows (foldl (apply_operation sample_env) (init_db None)
           [Submit sample_request, Approve 1 (Some [0x6E]) (Some [0x79])]))"
proof -
  have c: "unicodedata_category sample_env = sample_category"
    by (simp add: sample_env_def)
  have clean: "strip (str_isspace sample_env)
              (sanitize (unicodedata_category sample_env) (body_message sample_request)) = [0x68, 0x69]"
    by (simp add: sample_env_def sample_request_def strip_def sanitize_def sample_isspace_def
        sample_category_def startswith_def)
  have s: "map message (rows (snd (post_submit sample_env (init_db None) sample_request))) = [[0x68, 0x69]]"
    using clean
    by (simp add: post_submit_def validate_message_def MAX_LENGTH_def submit_def Let_def
        count_since_def init_db_def insert_message_def sample_env_def sample_request_def
        split: sum.splits)
  have m: "map message (rows (foldl (apply_operation sample_env) (init_db None)
      [Submit sample_request, Approve 1 (Some [0x6E]) (Some [0x79])])) = [[0x68, 0x69]]"
    using s by (simp add: apply_operation_def approve_message_texts)
  from stored_text_invariant [of sample_env "init_db None"
      "[Submit sample_request, Approve 1 (Some [0x6E]) (Some [0x79])]"] m c
  show ?thesis by simp
qed


section \<open>Properties of the printer frame\<close>

text \<open>
  Claim C7. For every message text that UTF-8 can encode (as every cleaned text is: the
  sanitizer drops surrogates), and a device that opens and accepts the write,
  \<open>print_message\<close> delivers exactly one write, whose bytes are \<open>1B 40\<close>, the UTF-8
  encoding of the text, \<open>0A\<close>, and \<open>1B 64 05 1D 56 00\<close>.
\<close>

theorem print_message_frame:
  assumes "list_all encodable msg"
    and "open_error printer = None" and "write_error printer = None"
  shows "print_message printer msg =
           (Inr (), printer\<lparr>writes := writes printer @
              [[0x1B, 0x40] @ utf8 msg @ [0x0A] @ [0x1B, 0x64, 0x05, 0x1D, 0x56, 0x00]]\<rparr>)"
  using assms by (simp add: print_message_def encode_utf8_def)

theorem print_message_frame_witness:
  "print_message idle_printer [0x68, 0xE9, 0x20AC] =
     (Inr (), \<lparr>open_error = None, write_error = None,
               writes = [[0x1B, 0x40, 0x68, 0xC3, 0xA9, 0xE2, 0x82, 0xAC, 0x0A,
                          0x1B, 0x64, 0x05, 0x1D, 0x56, 0x00]]\<rparr>)"
proof -
  have enc: "list_all encodable [0x68, 0xE9, 0x20AC]"
    by (simp add: encodable_def)
  have bytes: "utf8 [0x68, 0xE9, 0x20AC] = [0x68, 0xC3, 0xA9, 0xE2, 0x82, 0xAC]"
    by (simp add: utf8_def utf8_codepoint_def)
  show ?thesis
    using print_message_frame [OF enc, of idle_printer] bytes
    by (simp add: idle_printer_def)
qed

section \<open>Approval on the schema that \<open>init_db\<close> creates\<close>

text \<open>
  Claim C6. The claim says that approving a pending message sets \<open>gallery_approved\<close> and
  records the commentary. On a database created by \<open>init_db\<close>, whose table has no
  \<open>commentary\<close> column, the \<open>UPDATE\<close> of \<open>approve_message\<close> is refused: approving the
  pending message 1 with the commentary \<open>nice\<close> and the answer \<open>y\<close> raises
  \<open>sqlite3.OperationalError\<close> and the row stays unapproved.
\<close>

theorem approval_fails_on_created_schema:
  "approve_message sample_isspace (sample_db ''2026-11-03T10:00:00+00:00'') 1
       (Some [0x6E, 0x69, 0x63, 0x65]) (Some [0x79])
     = (Inl (PyExn ''sqlite3.OperationalError'' ''no such column: commentary''),
        sample_db ''2026-11-03T10:00:00+00:00'')
   \<and> map gallery_approved (rows (sample_db ''2026-11-03T10:00:00+00:00'')) = [0]
   \<and> columns (sample_db ''2026-11-03T10:00:00+00:00'') = columns (init_db None)"
  by (simp add: approve_message_def sample_db_def sample_row_def init_db_def strip_def
      sample_isspace_def lower_def)

text \<open>
  On a database whose table does have the column, the approval is the one-shot
  transition: it sets the flag and the commentary on the rows with that id, and a second
  approval of the same id finds no pending message and changes nothing.
\<close>

lemma approve_message_approves:
  assumes col: "''commentary'' \<in> set (columns db)"
    and pending: "find (\<lambda>r. row_id r = i \<and> gallery_approved r = 0) (rows db) = Some found"
    and yes: "lower (strip f k) = [0x79]"
  shows "approve_message f db i (Some c) (Some k) =
           (Inr Approved,
            db\<lparr>rows := map (\<lambda>r. if row_id r = i
                                   then r\<lparr>gallery_approved := 1,
                                          commentary := (if strip f c = [] then None else Some (strip f c))\<rparr>
                                   else r) (rows db)\<rparr>)"
proof -
  have fi: "row_id found = i"
    using pending unfolding find_Some_iff by blast
  show ?thesis
    unfolding approve_message_def pending option.case Let_def yes fi
    using col by simp
qed

lemma no_pending_after_approval:
  "find (\<lambda>r. row_id r = i \<and> gallery_approved r = 0)
     (map (\<lambda>r. if row_id r = i then r\<lparr>gallery_approved := 1, commentary := n\<rparr> else r) rs) = None"
  by (induction rs) simp_all

lemma approve_message_second_time:
  assumes col: "''commentary'' \<in> set (columns db)"
    and pending: "find (\<lambda>r. row_id r = i \<and> gallery_approved r = 0) (rows db) = Some found"
    and yes: "lower (strip f k) = [0x79]"
  shows "approve_message f (snd (approve_message f db i (Some c) (Some k))) i c2 k2
           = (Inr No_pending_message, snd (approve_message f db i (Some c) (Some k)))"
  unfolding approve_message_approves [OF col pending yes]
  by (simp add: approve_message_def no_pending_after_approval)

section \<open>Responses of the printer bridge\<close>






text \<open>
  When the body can be read: the \<open>Content-Length\<close> header is absent, or \<open>int()\<close>
  accepts it and the length is -1 or a size from 0 to \<open>sys.maxsize\<close>. On any other
  request the exception leaves \<open>do_POST\<close> and the handler writes no response.
\<close>

lemma read_body_succeeds_iff:
  assumes "0 \<le> sys_maxsize rt"
  shows "(\<exists>body. read_body rt req = Inr body) \<longleftrightarrow>
           (content_length_header req = None
            \<or> (\<exists>h n. content_length_header req = Some h \<and> py_int rt h = Inr n
                  \<and> - 1 \<le> n \<and> n \<le> sys_maxsize rt))"
  using assms
  by (auto simp add: read_body_def rfile_read_def split: option.splits sum.splits if_splits)

lemma no_response_when_body_unreadable:
  assumes "path req = ''/print''" and "read_body rt req = Inl x"
  shows "do_POST rt printer req = (Inl x, printer)"
  using assms by (simp add: do_POST_def)

lemma no_response_on_negative_length:
  "do_POST sample_bridge idle_printer (hi_request\<lparr>content_length_header := Some ''-5''\<rparr>)
     = (Inl (PyExn ''ValueError'' ''read length must be non-negative or -1''), idle_printer)"
  by (simp add: do_POST_def read_body_def rfile_read_def sample_bridge_def hi_request_def)



end
